theory Spec2Isabelle
  imports Complex_Main "HOL-Library.Multiset"
begin

section \<open>JavaScript values as App.js receives them\<close>

text \<open>
  The telemetry batch is the JSON body of an HTTP response, so every field of a record is a
  JSON value, or \<open>undefined\<close> when the field is absent. Numbers are IEEE doubles; the
  program only tests them for truthiness, passes them through, and takes the sign of a
  difference in its sort comparators. The model therefore keeps a finite number as the
  rational it denotes (negative zero is identified with zero: the program never tells them
  apart), and keeps \<open>NaN\<close> and the two infinities as values of their own. An object is
  the list of its members; a parsed object has each key once. Array-valued fields are not
  modelled.
\<close>

datatype jsnum = NaN | NegInf | Fin rat | PosInf

datatype jsval =
    Undefined
  | Null
  | Bool bool
  | Num jsnum
  | Str string
  | Obj "(string \<times> jsval) list"

text \<open>ToBoolean: \<open>undefined\<close>, \<open>null\<close>, \<open>false\<close>, \<open>0\<close>, \<open>NaN\<close> and \<open>""\<close> are falsy.\<close>

fun truthy :: "jsval \<Rightarrow> bool" where
  "truthy Undefined = False"
| "truthy Null = False"
| "truthy (Bool b) = b"
| "truthy (Num n) = (n \<noteq> NaN \<and> n \<noteq> Fin 0)"
| "truthy (Str s) = (s \<noteq> [])"
| "truthy (Obj ps) = True"

text \<open>The operator \<open>a || b\<close>.\<close>

definition js_or :: "jsval \<Rightarrow> jsval \<Rightarrow> jsval" where
  "js_or a b = (if truthy a then a else b)"

text \<open>The test \<open>v != null\<close> (loose inequality: false for \<open>null\<close> and \<open>undefined\<close> only).\<close>

fun not_null :: "jsval \<Rightarrow> bool" where
  "not_null Undefined = False"
| "not_null Null = False"
| "not_null v = True"

fun typeof :: "jsval \<Rightarrow> string" where
  "typeof Undefined = ''undefined''"
| "typeof Null = ''object''"
| "typeof (Bool b) = ''boolean''"
| "typeof (Num n) = ''number''"
| "typeof (Str s) = ''string''"
| "typeof (Obj ps) = ''object''"

text \<open>
  The property read \<open>v.$date\<close>. Primitives other than \<open>null\<close> and \<open>undefined\<close> have no
  such property, so the read gives \<open>undefined\<close>. On \<open>null\<close> and \<open>undefined\<close> JavaScript
  raises a TypeError; every read in App.js sits under \<open>if (entry.timestamp)\<close>, which
  excludes both (lemma \<open>truthy_not_nullish\<close>), and the model returns \<open>undefined\<close> there.
\<close>

fun dollar_date :: "jsval \<Rightarrow> jsval" where
  "dollar_date (Obj ps) = (case map_of ps ''$date'' of Some d \<Rightarrow> d | None \<Rightarrow> Undefined)"
| "dollar_date v = Undefined"

text \<open>
  The subtraction \<open>a - b\<close> of two numbers. On finite operands the double result is the
  rounded exact difference, which has the sign of the exact difference (distinct doubles
  never subtract to zero, and overflow keeps the sign), so the exact difference is kept.
\<close>

fun js_minus :: "jsnum \<Rightarrow> jsnum \<Rightarrow> jsnum" where
  "js_minus NaN b = NaN"
| "js_minus a NaN = NaN"
| "js_minus PosInf PosInf = NaN"
| "js_minus NegInf NegInf = NaN"
| "js_minus PosInf b = PosInf"
| "js_minus NegInf b = NegInf"
| "js_minus a PosInf = NegInf"
| "js_minus a NegInf = PosInf"
| "js_minus (Fin x) (Fin y) = Fin (x - y)"

text \<open>The comparisons \<open>a > b\<close> and \<open>a <= b\<close>: false as soon as an operand is \<open>NaN\<close>.\<close>

fun js_gt :: "jsnum \<Rightarrow> jsnum \<Rightarrow> bool" where
  "js_gt NaN b = False"
| "js_gt a NaN = False"
| "js_gt NegInf b = False"
| "js_gt a PosInf = False"
| "js_gt PosInf b = True"
| "js_gt a NegInf = True"
| "js_gt (Fin x) (Fin y) = (x > y)"

fun js_le :: "jsnum \<Rightarrow> jsnum \<Rightarrow> bool" where
  "js_le NaN b = False"
| "js_le a NaN = False"
| "js_le NegInf b = True"
| "js_le a PosInf = True"
| "js_le PosInf b = False"
| "js_le a NegInf = False"
| "js_le (Fin x) (Fin y) = (x \<le> y)"

section \<open>The Date object\<close>

text \<open>
  A Date is its time value: an integral number of milliseconds of magnitude at most
  \<open>8.64e15\<close>, or \<open>NaN\<close> for an invalid date. \<open>timeClip\<close> is the language's TimeClip
  composed with the truncation to an integer that precedes it.
\<close>

definition truncate_rat :: "rat \<Rightarrow> rat" where
  "truncate_rat r = (if r < 0 then - of_int \<lfloor>- r\<rfloor> else of_int \<lfloor>r\<rfloor>)"

fun timeClip :: "jsnum \<Rightarrow> jsnum" where
  "timeClip (Fin r) = (if \<bar>r\<bar> > 8640000000000000 then NaN else Fin (truncate_rat r))"
| "timeClip n = NaN"

text \<open>
  \<open>new Date(v)\<close> with one argument. A string is handed to \<open>Date.parse\<close>, whose result on
  anything but the ISO format is left to the engine: \<open>parse\<close> is that function, a parameter
  of the model. A plain object converts to the string \<open>[object Object]\<close> first; the other
  primitives convert to a number (\<open>true\<close> to 1, \<open>false\<close> and \<open>null\<close> to 0, \<open>undefined\<close>
  to \<open>NaN\<close>).
\<close>

fun newDate :: "(string \<Rightarrow> jsnum) \<Rightarrow> jsval \<Rightarrow> jsnum" where
  "newDate parse (Str s) = parse s"
| "newDate parse (Obj ps) = parse ''[object Object]''"
| "newDate parse (Num n) = timeClip n"
| "newDate parse (Bool b) = (if b then Fin 1 else Fin 0)"
| "newDate parse Null = Fin 0"
| "newDate parse Undefined = NaN"

definition getTime :: "jsnum \<Rightarrow> jsnum" where
  "getTime d = d"

text \<open>
  \<open>Date.prototype.toLocaleString\<close>: the string \<open>Invalid Date\<close> for an invalid date, and
  otherwise the rendering \<open>fmt\<close> of the host's locale and time zone, a parameter of the
  model.
\<close>

definition toLocaleString :: "(jsnum \<Rightarrow> string) \<Rightarrow> jsnum \<Rightarrow> string" where
  "toLocaleString fmt d = (if d = NaN then ''Invalid Date'' else fmt d)"

section \<open>Telemetry records and timestamp resolution\<close>

record entry =
  timestamp :: jsval
  temperature :: jsval
  humidity :: jsval
  pressure :: jsval
  percentage_light_intensity :: jsval

text \<open>The computed property read \<open>entry[key]\<close>.\<close>

definition entry_prop :: "entry \<Rightarrow> string \<Rightarrow> jsval" where
  "entry_prop e k =
     (if k = ''timestamp'' then timestamp e
      else if k = ''temperature'' then temperature e
      else if k = ''humidity'' then humidity e
      else if k = ''pressure'' then pressure e
      else if k = ''percentage_light_intensity'' then percentage_light_intensity e
      else Undefined)"

text \<open>
  The three accessors test the same shapes in the same order. In its number branch
  \<open>getTimeValue\<close> returns the field itself, with no Date in between.
\<close>

definition getTimeValue :: "(string \<Rightarrow> jsnum) \<Rightarrow> entry \<Rightarrow> jsnum" where
  "getTimeValue parse e =
     (if truthy (timestamp e) then
        (if truthy (dollar_date (timestamp e))
           then getTime (newDate parse (dollar_date (timestamp e)))
         else if typeof (timestamp e) = ''string''
           then getTime (newDate parse (timestamp e))
         else if typeof (timestamp e) = ''number''
           then (case timestamp e of Num n \<Rightarrow> n | _ \<Rightarrow> Fin 0)
         else Fin 0)
      else Fin 0)"

definition formatTimestamp :: "(string \<Rightarrow> jsnum) \<Rightarrow> (jsnum \<Rightarrow> string) \<Rightarrow> entry \<Rightarrow> string" where
  "formatTimestamp parse fmt e =
     (if truthy (timestamp e) then
        (if truthy (dollar_date (timestamp e))
           then toLocaleString fmt (newDate parse (dollar_date (timestamp e)))
         else if typeof (timestamp e) = ''string''
           then toLocaleString fmt (newDate parse (timestamp e))
         else if typeof (timestamp e) = ''number''
           then toLocaleString fmt (newDate parse (timestamp e))
         else ''Invalid'')
      else ''Invalid'')"

text \<open>The variable \<open>dateStr\<close> of the table's row callback.\<close>

definition dateStr :: "(string \<Rightarrow> jsnum) \<Rightarrow> (jsnum \<Rightarrow> string) \<Rightarrow> entry \<Rightarrow> string" where
  "dateStr parse fmt e =
     (if truthy (timestamp e) then
        (if truthy (dollar_date (timestamp e))
           then toLocaleString fmt (newDate parse (dollar_date (timestamp e)))
         else if typeof (timestamp e) = ''string''
           then toLocaleString fmt (newDate parse (timestamp e))
         else if typeof (timestamp e) = ''number''
           then toLocaleString fmt (newDate parse (timestamp e))
         else ''Invalid or Missing Date'')
      else ''Invalid or Missing Date'')"

section \<open>Array.prototype.sort\<close>

text \<open>
  \<open>xs.sort(comparefn)\<close>. The language calls the comparator through SortCompare, which
  reads a \<open>NaN\<close> result as \<open>+0\<close>, and an element goes behind another one only on a
  positive result. The sort is stable, so for a consistent comparator the language fixes the
  result; it is computed here by insertion from the right. For an inconsistent comparator
  the order is left to the engine, and the result below is one admissible order.
\<close>

definition sortCompare :: "('a \<Rightarrow> 'a \<Rightarrow> jsnum) \<Rightarrow> 'a \<Rightarrow> 'a \<Rightarrow> jsnum" where
  "sortCompare comparefn x y = (let v = comparefn x y in if v = NaN then Fin 0 else v)"

fun insertSorted :: "('a \<Rightarrow> 'a \<Rightarrow> jsnum) \<Rightarrow> 'a \<Rightarrow> 'a list \<Rightarrow> 'a list" where
  "insertSorted comparefn x [] = [x]"
| "insertSorted comparefn x (y # ys) =
     (if js_gt (sortCompare comparefn x y) (Fin 0)
      then y # insertSorted comparefn x ys
      else x # y # ys)"

fun Array_sort :: "('a \<Rightarrow> 'a \<Rightarrow> jsnum) \<Rightarrow> 'a list \<Rightarrow> 'a list" where
  "Array_sort comparefn [] = []"
| "Array_sort comparefn (x # xs) = insertSorted comparefn x (Array_sort comparefn xs)"

section \<open>Metric availability and chart series\<close>

text \<open>\<open>selectedData\<close> is \<open>null\<close> (here \<open>None\<close>) until the first successful fetch.\<close>

definition hasData :: "entry list option \<Rightarrow> bool" where
  "hasData sd = (case sd of None \<Rightarrow> False | Some xs \<Rightarrow> length xs > 0)"

definition hasLightIntensity :: "entry list option \<Rightarrow> bool" where
  "hasLightIntensity sd =
     (case sd of
        None \<Rightarrow> False
      | Some xs \<Rightarrow> hasData sd \<and> list_ex (\<lambda>e. not_null (percentage_light_intensity e)) xs)"

record metric =
  key :: string
  label :: string
  color :: string

text \<open>The array literal the charts are mapped from.\<close>

definition chartMetrics :: "bool \<Rightarrow> metric list" where
  "chartMetrics light =
     [\<lparr>key = ''temperature'', label = ''Temperature'', color = ''#ef4444''\<rparr>,
      \<lparr>key = ''humidity'', label = ''Humidity'', color = ''#3b82f6''\<rparr>,
      \<lparr>key = ''pressure'', label = ''Pressure'', color = ''#10b981''\<rparr>]
     @ (if light
        then [\<lparr>key = ''percentage_light_intensity'', label = ''Light Intensity'',
               color = ''#f59e0b''\<rparr>]
        else [])"

record series_point =
  point_time :: string
  point_value :: jsval

text \<open>
  \<open>seriesData\<close> is a copy of the batch, filtered twice, sorted and mapped to points.
  \<open>seriesEntries\<close> names the records that reach the final \<open>map\<close>, in their order.
\<close>

definition seriesEntries :: "(string \<Rightarrow> jsnum) \<Rightarrow> entry list \<Rightarrow> string \<Rightarrow> entry list" where
  "seriesEntries parse sd k =
     Array_sort (\<lambda>a b. js_minus (getTimeValue parse a) (getTimeValue parse b))
       (filter (\<lambda>e. not_null (entry_prop e k))
         (filter (\<lambda>e. not_null (temperature e) \<or> not_null (humidity e)
                       \<or> not_null (pressure e) \<or> not_null (percentage_light_intensity e))
            sd))"

definition seriesData ::
  "(string \<Rightarrow> jsnum) \<Rightarrow> (jsnum \<Rightarrow> string) \<Rightarrow> entry list \<Rightarrow> string \<Rightarrow> series_point list" where
  "seriesData parse fmt sd k =
     map (\<lambda>e. \<lparr>point_time = formatTimestamp parse fmt e, point_value = entry_prop e k\<rparr>)
       (seriesEntries parse sd k)"

text \<open>The charts panel is rendered only when there is data: one chart per listed metric.\<close>

definition chartsPanel ::
  "(string \<Rightarrow> jsnum) \<Rightarrow> (jsnum \<Rightarrow> string) \<Rightarrow> entry list option
     \<Rightarrow> (metric \<times> series_point list) list option" where
  "chartsPanel parse fmt sd =
     (case sd of
        None \<Rightarrow> None
      | Some xs \<Rightarrow>
          if hasData sd
          then Some (map (\<lambda>m. (m, seriesData parse fmt xs (key m)))
                       (chartMetrics (hasLightIntensity sd)))
          else None)"

section \<open>The table\<close>

record table_row =
  row_key :: nat
  cell_timestamp :: string
  cell_temperature :: jsval
  cell_humidity :: jsval
  cell_pressure :: jsval
  cell_light :: "jsval option"

text \<open>One table row: the callback of the \<open>map\<close> over the sorted batch.\<close>

definition tableRow ::
  "(string \<Rightarrow> jsnum) \<Rightarrow> (jsnum \<Rightarrow> string) \<Rightarrow> bool \<Rightarrow> nat \<times> entry \<Rightarrow> table_row" where
  "tableRow parse fmt light ie =
     (case ie of (idx, e) \<Rightarrow>
        \<lparr>row_key = idx,
         cell_timestamp = dateStr parse fmt e,
         cell_temperature = js_or (temperature e) (Str ''N/A''),
         cell_humidity = js_or (humidity e) (Str ''N/A''),
         cell_pressure = js_or (pressure e) (Str ''N/A''),
         cell_light =
           (if light then Some (js_or (percentage_light_intensity e) (Str ''N/A''))
            else None)\<rparr>)"

text \<open>
  \<open>selectedData.sort(...)\<close> sorts the state array itself, in place, and returns it:
  \<open>sortedForTable\<close> is both the array the rows are mapped from and the content of
  \<open>selectedData\<close> afterwards.
\<close>

definition sortedForTable :: "(string \<Rightarrow> jsnum) \<Rightarrow> entry list \<Rightarrow> entry list" where
  "sortedForTable parse sd =
     Array_sort (\<lambda>a b. js_minus (getTimeValue parse b) (getTimeValue parse a)) sd"

definition tableRows ::
  "(string \<Rightarrow> jsnum) \<Rightarrow> (jsnum \<Rightarrow> string) \<Rightarrow> bool \<Rightarrow> entry list \<Rightarrow> table_row list" where
  "tableRows parse fmt light sd =
     map (tableRow parse fmt light) (enumerate 0 (sortedForTable parse sd))"

definition tableHeader :: "bool \<Rightarrow> string list" where
  "tableHeader light =
     [''Timestamp'', ''Temperature'', ''Humidity'', ''Pressure'']
     @ (if light then [''Light Intensity(%)''] else [])"

datatype table_panel =
    TableCard string "string list" "table_row list"
  | EmptyCard string

section \<open>The component state, rendering and the click handler\<close>

datatype console_entry =
    ConsoleLog string jsval "entry list"
  | ConsoleError string string

text \<open>
  The three state cells of \<open>App\<close> (the profiles are opaque here) and the console, the
  only output besides the rendered view.
\<close>

record app_state =
  profiles :: "jsval list"
  selectedData :: "entry list option"
  selectedProfile :: "string option"
  console :: "console_entry list"

definition initialState :: app_state where
  "initialState = \<lparr>profiles = [], selectedData = None, selectedProfile = None, console = []\<rparr>"

text \<open>
  The table panel, with the state it leaves: rendering the table sorts the array held in
  \<open>selectedData\<close>.
\<close>

definition tablePanel ::
  "(string \<Rightarrow> jsnum) \<Rightarrow> (jsnum \<Rightarrow> string) \<Rightarrow> app_state \<Rightarrow> table_panel \<times> app_state" where
  "tablePanel parse fmt s =
     (case selectedData s of
        None \<Rightarrow> (EmptyCard ''Click a marker to load data.'', s)
      | Some xs \<Rightarrow>
          if hasData (selectedData s)
          then (TableCard
                  (''Time-Series Data'' @
                     (case selectedProfile s of
                        None \<Rightarrow> []
                      | Some n \<Rightarrow> if n \<noteq> [] then '' - '' @ n else []))
                  (tableHeader (hasLightIntensity (selectedData s)))
                  (tableRows parse fmt (hasLightIntensity (selectedData s)) xs),
                s\<lparr>selectedData := Some (sortedForTable parse xs)\<rparr>)
          else (EmptyCard ''No time-series data available for this profile.'', s))"

text \<open>
  One render of \<open>App\<close>: the charts are built first, from copies of the batch, then the
  table.
\<close>

definition App ::
  "(string \<Rightarrow> jsnum) \<Rightarrow> (jsnum \<Rightarrow> string) \<Rightarrow> app_state
     \<Rightarrow> ((metric \<times> series_point list) list option \<times> table_panel) \<times> app_state" where
  "App parse fmt s =
     (let charts = chartsPanel parse fmt (selectedData s);
          (tbl, s') = tablePanel parse fmt s
      in ((charts, tbl), s'))"

text \<open>
  \<open>handleClick(id, name)\<close> once its request has settled: the \<open>then\<close> callback on a
  response, the \<open>catch\<close> callback on a failure.
\<close>

datatype fetch_result = Resolved "entry list" | Rejected string

definition handleClick :: "jsval \<Rightarrow> string \<Rightarrow> fetch_result \<Rightarrow> app_state \<Rightarrow> app_state" where
  "handleClick ident name r s =
     (case r of
        Resolved d \<Rightarrow>
          s\<lparr>console := console s @ [ConsoleLog ''Data loaded for ID'' ident d],
            selectedData := Some d,
            selectedProfile := Some name\<rparr>
      | Rejected err \<Rightarrow>
          s\<lparr>console := console s @ [ConsoleError ''Error loading data:'' err]\<rparr>)"

text \<open>The rows a table panel shows: none when the panel is a message card.\<close>

definition panelRows :: "table_panel \<Rightarrow> table_row list" where
  "panelRows p = (case p of TableCard t h rs \<Rightarrow> rs | EmptyCard m \<Rightarrow> [])"

section \<open>Sample inputs\<close>

text \<open>
  A host for the examples below: \<open>Date.parse\<close> on the strings the examples use (two ISO
  date-times, every other string being one no engine recognises), and \<open>toLocaleString\<close>
  in the \<open>en-US\<close> locale and the UTC zone on the instants the examples reach.
\<close>

definition sampleParse :: "string \<Rightarrow> jsnum" where
  "sampleParse s =
     (if s = ''2024-01-01T00:00:00Z'' then Fin 1704067200000
      else if s = ''2024-01-02T00:00:00Z'' then Fin 1704153600000
      else NaN)"

definition sampleFormat :: "jsnum \<Rightarrow> string" where
  "sampleFormat d =
     (if d = Fin 0 then ''1/1/1970, 12:00:00 AM''
      else if d = Fin 1704067200000 then ''1/1/2024, 12:00:00 AM''
      else if d = Fin 1704153600000 then ''1/2/2024, 12:00:00 AM''
      else ''(another date)'')"

text \<open>A record with a timestamp and a temperature only.\<close>

definition record_at :: "jsval \<Rightarrow> jsval \<Rightarrow> entry" where
  "record_at ts temp =
     \<lparr>timestamp = ts, temperature = temp, humidity = Undefined, pressure = Undefined,
      percentage_light_intensity = Undefined\<rparr>"

text \<open>
  The batch \<open>[{timestamp: "2024-01-01T00:00:00Z", temperature: 20},
  {timestamp: {$date: "2024-01-02T00:00:00Z"}, humidity: 50}]\<close>.
\<close>

definition sampleBatch :: "entry list" where
  "sampleBatch =
     [\<lparr>timestamp = Str ''2024-01-01T00:00:00Z'', temperature = Num (Fin 20),
       humidity = Undefined, pressure = Undefined, percentage_light_intensity = Undefined\<rparr>,
      \<lparr>timestamp = Obj [(''$date'', Str ''2024-01-02T00:00:00Z'')], temperature = Undefined,
       humidity = Num (Fin 50), pressure = Undefined, percentage_light_intensity = Undefined\<rparr>]"

section \<open>Basic facts\<close>

lemma truthy_not_nullish: "truthy v \<Longrightarrow> v \<noteq> Null \<and> v \<noteq> Undefined"
  by (cases v) auto

lemma js_le_total: "a \<noteq> NaN \<Longrightarrow> b \<noteq> NaN \<Longrightarrow> js_le a b \<or> js_le b a"
  by (cases a; cases b) auto

lemma js_le_trans: "js_le a b \<Longrightarrow> js_le b c \<Longrightarrow> js_le a c"
  by (cases a; cases b; cases c) auto

lemma js_le_not_NaN: "js_le a b \<Longrightarrow> a \<noteq> NaN \<and> b \<noteq> NaN"
  by (cases a; cases b) auto

text \<open>On numbers other than \<open>NaN\<close> the comparator \<open>a - b\<close> is positive exactly when \<open>a > b\<close>.\<close>

lemma difference_positive_iff:
  "a \<noteq> NaN \<Longrightarrow> b \<noteq> NaN \<Longrightarrow>
   js_gt (let v = js_minus a b in if v = NaN then Fin 0 else v) (Fin 0) \<longleftrightarrow> \<not> js_le a b"
  by (cases a; cases b) (auto simp: Let_def)

text \<open>A Date keeps a time value as it is.\<close>

lemma timeClip_time_value:
  "\<bar>i\<bar> \<le> 8640000000000000 \<Longrightarrow> timeClip (Fin (of_int i)) = Fin (of_int i)"
proof -
  assume b: "\<bar>i\<bar> \<le> 8640000000000000"
  have "\<bar>(of_int i :: rat)\<bar> = of_int \<bar>i\<bar>" by simp
  also have "\<dots> \<le> of_int 8640000000000000" using b by (simp only: of_int_le_iff)
  finally have le: "\<not> \<bar>(of_int i :: rat)\<bar> > 8640000000000000" by simp
  have tr: "truncate_rat (of_int i) = of_int i"
    unfolding truncate_rat_def
    by (simp add: of_int_minus [symmetric] del: of_int_minus)
  show ?thesis using le tr by simp
qed

subsection \<open>The sort\<close>

lemma mset_insertSorted: "mset (insertSorted c x ys) = add_mset x (mset ys)"
  by (induction ys) auto

lemma mset_Array_sort: "mset (Array_sort c xs) = mset xs"
  by (induction xs) (auto simp: mset_insertSorted)

lemma set_Array_sort: "set (Array_sort c xs) = set xs"
  by (metis mset_Array_sort set_mset_mset)

lemma length_Array_sort: "length (Array_sort c xs) = length xs"
  by (metis mset_Array_sort size_mset)

text \<open>
  Insertion keeps a list sorted with respect to \<open>P\<close> when the comparator decides \<open>P\<close>
  on the elements involved and \<open>P\<close> is transitive.
\<close>

lemma sorted_insertSorted:
  assumes tot: "\<And>a b. a \<in> insert x (set ys) \<Longrightarrow> b \<in> insert x (set ys) \<Longrightarrow>
                 (if js_gt (sortCompare c a b) (Fin 0) then P b a else P a b)"
    and trans: "\<And>a b d. P a b \<Longrightarrow> P b d \<Longrightarrow> P a d"
    and srt: "sorted_wrt P ys"
  shows "sorted_wrt P (insertSorted c x ys)"
  using tot srt
proof (induction ys)
  case Nil
  then show ?case by simp
next
  case (Cons y ys)
  show ?case
  proof (cases "js_gt (sortCompare c x y) (Fin 0)")
    case True
    have yx: "P y x" using Cons.prems(1)[of x y] True by simp
    have "sorted_wrt P (insertSorted c x ys)"
      using Cons.IH Cons.prems by auto
    moreover have "\<forall>z\<in>set (insertSorted c x ys). P y z"
    proof
      fix z assume "z \<in> set (insertSorted c x ys)"
      then have "z \<in># add_mset x (mset ys)"
        by (metis mset_insertSorted set_mset_mset)
      then have "z = x \<or> z \<in> set ys" by auto
      then show "P y z" using yx Cons.prems(2) by auto
    qed
    ultimately show ?thesis using True by simp
  next
    case False
    have xy: "P x y" using Cons.prems(1)[of x y] False by simp
    have "\<forall>z\<in>set ys. P x z" using xy Cons.prems(2) trans by auto
    then show ?thesis using False xy Cons.prems(2) by simp
  qed
qed

lemma sorted_Array_sort:
  assumes tot: "\<And>a b. a \<in> set xs \<Longrightarrow> b \<in> set xs \<Longrightarrow>
                 (if js_gt (sortCompare c a b) (Fin 0) then P b a else P a b)"
    and trans: "\<And>a b d. P a b \<Longrightarrow> P b d \<Longrightarrow> P a d"
  shows "sorted_wrt P (Array_sort c xs)"
  using tot
proof (induction xs)
  case Nil
  then show ?case by simp
next
  case (Cons x xs)
  have "sorted_wrt P (Array_sort c xs)" using Cons by auto
  then show ?case
    using Cons.prems trans by (auto intro!: sorted_insertSorted simp: set_Array_sort)
qed

lemma ascending_Array_sort:
  assumes "\<forall>e\<in>set xs. k e \<noteq> NaN"
  shows "sorted_wrt (\<lambda>a b. js_le (k a) (k b)) (Array_sort (\<lambda>a b. js_minus (k a) (k b)) xs)"
proof (rule sorted_Array_sort)
  fix a b assume "a \<in> set xs" "b \<in> set xs"
  then have "k a \<noteq> NaN" "k b \<noteq> NaN" using assms by auto
  then show "if js_gt (sortCompare (\<lambda>a b. js_minus (k a) (k b)) a b) (Fin 0)
             then js_le (k b) (k a) else js_le (k a) (k b)"
    using difference_positive_iff[of "k a" "k b"] js_le_total[of "k a" "k b"]
    by (auto simp: sortCompare_def)
next
  fix a b d assume "js_le (k a) (k b)" "js_le (k b) (k d)"
  then show "js_le (k a) (k d)" by (rule js_le_trans)
qed

lemma descending_Array_sort:
  assumes "\<forall>e\<in>set xs. k e \<noteq> NaN"
  shows "sorted_wrt (\<lambda>a b. js_le (k b) (k a)) (Array_sort (\<lambda>a b. js_minus (k b) (k a)) xs)"
proof (rule sorted_Array_sort)
  fix a b assume "a \<in> set xs" "b \<in> set xs"
  then have "k a \<noteq> NaN" "k b \<noteq> NaN" using assms by auto
  then show "if js_gt (sortCompare (\<lambda>a b. js_minus (k b) (k a)) a b) (Fin 0)
             then js_le (k a) (k b) else js_le (k b) (k a)"
    using difference_positive_iff[of "k b" "k a"] js_le_total[of "k a" "k b"]
    by (auto simp: sortCompare_def)
next
  fix a b d assume "js_le (k b) (k a)" "js_le (k d) (k b)"
  then show "js_le (k d) (k a)" using js_le_trans by blast
qed

text \<open>
  Whatever order a sort leaves, a list of two or more elements with a \<open>NaN\<close> key among
  them has an adjacent pair that \<open><=\<close> rejects.
\<close>

lemma NaN_breaks_successively:
  assumes "x \<in> set xs" "k x = NaN" "length xs \<ge> 2"
    and strict: "\<And>a b. P a b \<Longrightarrow> k a \<noteq> NaN \<and> k b \<noteq> NaN"
  shows "\<not> successively P xs"
  using assms(1-3)
proof (induction xs rule: induct_list012)
  case 1
  then show ?case by simp
next
  case (2 a)
  then show ?case by simp
next
  case (3 a b zs)
  show ?case
  proof (cases "x = a \<or> x = b")
    case True
    then have "k a = NaN \<or> k b = NaN" using "3.prems"(2) by auto
    then have "\<not> P a b" using strict [of a b] by auto
    then show ?thesis by simp
  next
    case False
    then have mem: "x \<in> set (b # zs)" using "3.prems"(1) by auto
    then have len: "length (b # zs) \<ge> 2" using False by (cases zs) auto
    have "\<not> successively P (b # zs)"
      using "3.IH"(2) mem "3.prems"(2) len by blast
    then show ?thesis by simp
  qed
qed

text \<open>
  So a batch of two or more records, one of which resolves to \<open>NaN\<close>, is in neither
  order however an engine may arrange it.
\<close>

lemma unparsed_timestamp_never_in_order:
  assumes "e \<in> set xs" "getTimeValue parse e = NaN" "length xs \<ge> 2" "mset ys = mset xs"
  shows "\<not> successively (\<lambda>a b. js_le (getTimeValue parse a) (getTimeValue parse b)) ys
       \<and> \<not> successively (\<lambda>a b. js_le (getTimeValue parse b) (getTimeValue parse a)) ys"
proof
  have mem: "e \<in> set ys" using assms(1,4) by (metis set_mset_mset)
  have len: "length ys \<ge> 2" using assms(3,4) by (metis size_mset)
  show "\<not> successively (\<lambda>a b. js_le (getTimeValue parse a) (getTimeValue parse b)) ys"
  proof (rule NaN_breaks_successively [of e ys "getTimeValue parse", OF mem assms(2) len])
    fix a b assume "js_le (getTimeValue parse a) (getTimeValue parse b)"
    then show "getTimeValue parse a \<noteq> NaN \<and> getTimeValue parse b \<noteq> NaN"
      by (rule js_le_not_NaN)
  qed
  show "\<not> successively (\<lambda>a b. js_le (getTimeValue parse b) (getTimeValue parse a)) ys"
  proof (rule NaN_breaks_successively [of e ys "getTimeValue parse", OF mem assms(2) len])
    fix a b assume "js_le (getTimeValue parse b) (getTimeValue parse a)"
    then show "getTimeValue parse a \<noteq> NaN \<and> getTimeValue parse b \<noteq> NaN"
      using js_le_not_NaN by blast
  qed
qed

subsection \<open>Rendering and the state\<close>

lemma cell_light_tableRow:
  "cell_light (tableRow parse fmt light ie) = None \<longleftrightarrow> \<not> light"
  by (cases ie) (simp add: tableRow_def)

text \<open>A render leaves the state as it was, except that the batch is now sorted for the table.\<close>

lemma render_sorts_selectedData:
  "snd (App parse fmt s) = s\<lparr>selectedData := map_option (sortedForTable parse) (selectedData s)\<rparr>"
proof (cases "selectedData s")
  case None
  then show ?thesis by (simp add: App_def tablePanel_def)
next
  case (Some xs)
  then show ?thesis
    by (cases xs) (simp_all add: App_def tablePanel_def hasData_def sortedForTable_def)
qed

section \<open>The claims\<close>

subsection \<open>Timestamp resolution\<close>

text \<open>
  Claim C1, as amended. Let \<open>t\<close> be a time value: a whole number of milliseconds of
  magnitude at most \<open>8.64e15\<close>. A record whose timestamp is a wrapper object with the
  number \<open>t\<close> in \<open>$date\<close>, one whose wrapper has in \<open>$date\<close> a date string that
  \<open>Date.parse\<close> reads as \<open>t\<close>, one whose timestamp is such a string, and one whose
  timestamp is the number \<open>t\<close> all resolve to \<open>t\<close>. A date string is not empty: the
  empty string is falsy.
\<close>

theorem getTimeValue_same_instant_for_time_values:
  assumes "t = Fin (of_int i)" and "\<bar>i\<bar> \<le> 8640000000000000"
  shows "(timestamp e1 = Obj ps \<and> dollar_date (Obj ps) = Num t \<longrightarrow> getTimeValue parse e1 = t)
       \<and> (timestamp e2 = Obj qs \<and> dollar_date (Obj qs) = Str s \<and> s \<noteq> [] \<and> parse s = t
            \<longrightarrow> getTimeValue parse e2 = t)
       \<and> (timestamp e3 = Str s \<and> s \<noteq> [] \<and> parse s = t \<longrightarrow> getTimeValue parse e3 = t)
       \<and> (timestamp e4 = Num t \<longrightarrow> getTimeValue parse e4 = t)"
proof (intro conjI impI)
  assume h: "timestamp e1 = Obj ps \<and> dollar_date (Obj ps) = Num t"
  have clip: "timeClip t = t" using assms timeClip_time_value by simp
  show "getTimeValue parse e1 = t"
  proof (cases "i = 0")
    case True
    then have "t = Fin 0" using assms(1) by simp
    then show ?thesis using h by (simp add: getTimeValue_def)
  next
    case False
    then have "truthy (Num t)" using assms(1) by simp
    then show ?thesis using h clip by (simp add: getTimeValue_def getTime_def)
  qed
next
  assume "timestamp e2 = Obj qs \<and> dollar_date (Obj qs) = Str s \<and> s \<noteq> [] \<and> parse s = t"
  then show "getTimeValue parse e2 = t"
    by (simp add: getTimeValue_def getTime_def)
next
  assume "timestamp e3 = Str s \<and> s \<noteq> [] \<and> parse s = t"
  then show "getTimeValue parse e3 = t"
    by (simp add: getTimeValue_def getTime_def)
next
  assume "timestamp e4 = Num t"
  then show "getTimeValue parse e4 = t"
    using assms(1) by (auto simp: getTimeValue_def)
qed

theorem getTimeValue_same_instant_for_time_values_witness:
  "\<bar>1704153600000 :: int\<bar> \<le> 8640000000000000
   \<and> sampleParse ''2024-01-02T00:00:00Z'' = Fin 1704153600000
   \<and> getTimeValue sampleParse
        (record_at (Obj [(''$date'', Num (Fin 1704153600000))]) Undefined) = Fin 1704153600000
   \<and> getTimeValue sampleParse
        (record_at (Obj [(''$date'', Str ''2024-01-02T00:00:00Z'')]) Undefined) = Fin 1704153600000
   \<and> getTimeValue sampleParse (record_at (Str ''2024-01-02T00:00:00Z'') Undefined)
        = Fin 1704153600000
   \<and> getTimeValue sampleParse (record_at (Num (Fin 1704153600000)) Undefined)
        = Fin 1704153600000"
proof -
  have t: "Fin 1704153600000 = Fin (of_int 1704153600000)" by simp
  have b: "\<bar>1704153600000 :: int\<bar> \<le> 8640000000000000" by simp
  have p: "sampleParse ''2024-01-02T00:00:00Z'' = Fin 1704153600000"
    by (simp add: sampleParse_def)
  note inst = getTimeValue_same_instant_for_time_values [OF t b,
      where ?e1.0 = "record_at (Obj [(''$date'', Num (Fin 1704153600000))]) Undefined"
        and ps = "[(''$date'', Num (Fin 1704153600000))]"
        and ?e2.0 = "record_at (Obj [(''$date'', Str ''2024-01-02T00:00:00Z'')]) Undefined"
        and qs = "[(''$date'', Str ''2024-01-02T00:00:00Z'')]"
        and s = "''2024-01-02T00:00:00Z''" and parse = sampleParse
        and ?e3.0 = "record_at (Str ''2024-01-02T00:00:00Z'') Undefined"
        and ?e4.0 = "record_at (Num (Fin 1704153600000)) Undefined"]
  show ?thesis using inst b p by (simp add: record_at_def)
qed

text \<open>
  Claim C1 as stated fails for a number that is not a time value: the number branch returns
  the field as it is, the wrapper branch passes it through a Date. \<open>{timestamp: 1.5}\<close>
  resolves to 1.5 and \<open>{timestamp: {$date: 1.5}}\<close> to 1; \<open>{timestamp: 9e15}\<close> resolves
  to 9e15 and \<open>{timestamp: {$date: 9e15}}\<close> to \<open>NaN\<close>.
\<close>

theorem fractional_epoch_counterexample:
  "getTimeValue sampleParse (record_at (Num (Fin (3 / 2))) (Num (Fin 20))) = Fin (3 / 2)
   \<and> getTimeValue sampleParse (record_at (Obj [(''$date'', Num (Fin (3 / 2)))]) (Num (Fin 20)))
       = Fin 1
   \<and> getTimeValue sampleParse (record_at (Num (Fin (3 / 2))) (Num (Fin 20)))
       \<noteq> getTimeValue sampleParse
            (record_at (Obj [(''$date'', Num (Fin (3 / 2)))]) (Num (Fin 20)))
   \<and> getTimeValue sampleParse (record_at (Num (Fin 9000000000000000)) (Num (Fin 20)))
       = Fin 9000000000000000
   \<and> getTimeValue sampleParse
        (record_at (Obj [(''$date'', Num (Fin 9000000000000000))]) (Num (Fin 20))) = NaN"
proof -
  have fl: "\<lfloor>3 / 2 :: rat\<rfloor> = 1"
    by (rule floor_unique) simp_all
  show ?thesis
    by (simp add: getTimeValue_def getTime_def record_at_def truncate_rat_def fl)
qed

text \<open>
  Claim C3, as amended. For every record whose timestamp is absent, \<open>null\<close>, the empty
  string, a boolean, or an object without a truthy \<open>$date\<close> member, \<open>getTimeValue\<close> is
  0, \<open>formatTimestamp\<close> is \<open>Invalid\<close> and the table's \<open>dateStr\<close> is
  \<open>Invalid or Missing Date\<close>. (Content that does not parse is not among these inputs:
  it resolves to \<open>NaN\<close> and displays as \<open>Invalid Date\<close>.)
\<close>

theorem unresolvable_timestamp_defaults:
  assumes "timestamp e = Undefined \<or> timestamp e = Null \<or> timestamp e = Str []
           \<or> (\<exists>b. timestamp e = Bool b)
           \<or> (\<exists>ps. timestamp e = Obj ps \<and> \<not> truthy (dollar_date (Obj ps)))"
  shows "getTimeValue parse e = Fin 0
       \<and> formatTimestamp parse fmt e = ''Invalid''
       \<and> dateStr parse fmt e = ''Invalid or Missing Date''"
  using assms by (auto simp: getTimeValue_def formatTimestamp_def dateStr_def)

theorem unresolvable_timestamp_defaults_witness:
  "timestamp (record_at Null (Num (Fin 20))) = Null
   \<and> getTimeValue sampleParse (record_at Null (Num (Fin 20))) = Fin 0
   \<and> formatTimestamp sampleParse sampleFormat (record_at Null (Num (Fin 20))) = ''Invalid''
   \<and> dateStr sampleParse sampleFormat (record_at Null (Num (Fin 20)))
        = ''Invalid or Missing Date''
   \<and> \<not> truthy (dollar_date (Obj [(''seconds'', Num (Fin 5))]))
   \<and> getTimeValue sampleParse (record_at (Obj [(''seconds'', Num (Fin 5))]) (Num (Fin 20)))
        = Fin 0"
  using unresolvable_timestamp_defaults
          [of "record_at Null (Num (Fin 20))" sampleParse sampleFormat]
        unresolvable_timestamp_defaults
          [of "record_at (Obj [(''seconds'', Num (Fin 5))]) (Num (Fin 20))" sampleParse sampleFormat]
  by (simp add: record_at_def)

text \<open>
  Claim C3 as stated fails on unparseable content: the record
  \<open>{timestamp: "not a date", temperature: 21}\<close> resolves to \<open>NaN\<close>, not 0, and both
  display accessors give \<open>Invalid Date\<close>; so does a wrapper whose \<open>$date\<close> is a number
  beyond the range of a Date.
\<close>

theorem unparseable_content_counterexample:
  "getTimeValue sampleParse (record_at (Str ''not a date'') (Num (Fin 21))) = NaN
   \<and> getTimeValue sampleParse (record_at (Str ''not a date'') (Num (Fin 21))) \<noteq> Fin 0
   \<and> formatTimestamp sampleParse sampleFormat (record_at (Str ''not a date'') (Num (Fin 21)))
        = ''Invalid Date''
   \<and> formatTimestamp sampleParse sampleFormat (record_at (Str ''not a date'') (Num (Fin 21)))
        \<noteq> ''Invalid''
   \<and> dateStr sampleParse sampleFormat (record_at (Str ''not a date'') (Num (Fin 21)))
        = ''Invalid Date''
   \<and> dateStr sampleParse sampleFormat (record_at (Str ''not a date'') (Num (Fin 21)))
        \<noteq> ''Invalid or Missing Date''
   \<and> getTimeValue sampleParse
        (record_at (Obj [(''$date'', Num (Fin 9000000000000000))]) (Num (Fin 21))) = NaN"
  by (simp add: getTimeValue_def formatTimestamp_def dateStr_def getTime_def toLocaleString_def
        record_at_def sampleParse_def)

text \<open>
  Claim C4, as amended. For every record whose timestamp is a number \<open>n\<close> other than
  \<open>NaN\<close>, \<open>getTimeValue\<close> returns \<open>n\<close> itself. When \<open>n\<close> is not 0, both display
  accessors return \<open>new Date(n).toLocaleString()\<close>. When \<open>n\<close> is 0 the truthiness guard
  rejects it and the display accessors return their sentinels.
\<close>

theorem numeric_timestamp_resolution:
  assumes "timestamp e = Num n" and "n \<noteq> NaN"
  shows "getTimeValue parse e = n
       \<and> (n \<noteq> Fin 0 \<longrightarrow>
            formatTimestamp parse fmt e = toLocaleString fmt (newDate parse (Num n))
          \<and> dateStr parse fmt e = toLocaleString fmt (newDate parse (Num n)))
       \<and> (n = Fin 0 \<longrightarrow>
            formatTimestamp parse fmt e = ''Invalid''
          \<and> dateStr parse fmt e = ''Invalid or Missing Date'')"
  using assms by (auto simp: getTimeValue_def formatTimestamp_def dateStr_def)

theorem numeric_timestamp_resolution_witness:
  "getTimeValue sampleParse (record_at (Num (Fin 1704067200000)) (Num (Fin 20)))
     = Fin 1704067200000
   \<and> formatTimestamp sampleParse sampleFormat (record_at (Num (Fin 1704067200000)) (Num (Fin 20)))
     = ''1/1/2024, 12:00:00 AM''
   \<and> dateStr sampleParse sampleFormat (record_at (Num (Fin 1704067200000)) (Num (Fin 20)))
     = ''1/1/2024, 12:00:00 AM''
   \<and> getTimeValue sampleParse (record_at (Num (Fin 0)) (Num (Fin 20))) = Fin 0
   \<and> formatTimestamp sampleParse sampleFormat (record_at (Num (Fin 0)) (Num (Fin 20)))
     = ''Invalid''"
  using numeric_timestamp_resolution
          [of "record_at (Num (Fin 1704067200000)) (Num (Fin 20))" "Fin 1704067200000"
              sampleParse sampleFormat]
        numeric_timestamp_resolution
          [of "record_at (Num (Fin 0)) (Num (Fin 20))" "Fin 0" sampleParse sampleFormat]
  by (simp add: record_at_def toLocaleString_def sampleFormat_def truncate_rat_def)

text \<open>
  Claim C4 as stated fails at 0: for \<open>{timestamp: 0, temperature: 20}\<close> the display
  accessors return \<open>Invalid\<close> and \<open>Invalid or Missing Date\<close>, while the number 0
  formatted as a date is \<open>new Date(0).toLocaleString()\<close>.
\<close>

theorem numeric_zero_display_counterexample:
  "formatTimestamp sampleParse sampleFormat (record_at (Num (Fin 0)) (Num (Fin 20))) = ''Invalid''
   \<and> dateStr sampleParse sampleFormat (record_at (Num (Fin 0)) (Num (Fin 20)))
       = ''Invalid or Missing Date''
   \<and> toLocaleString sampleFormat (newDate sampleParse (Num (Fin 0))) = ''1/1/1970, 12:00:00 AM''
   \<and> formatTimestamp sampleParse sampleFormat (record_at (Num (Fin 0)) (Num (Fin 20)))
       \<noteq> toLocaleString sampleFormat (newDate sampleParse (Num (Fin 0)))"
  by (simp add: formatTimestamp_def dateStr_def record_at_def toLocaleString_def sampleFormat_def
        truncate_rat_def)

subsection \<open>Ordering of the series and of the table\<close>

text \<open>
  Claim C2, as amended. For every batch in which no record resolves to \<open>NaN\<close> (every
  timestamp string and every truthy \<open>$date\<close> content parses), and for every metric key,
  the records behind the chart series are in ascending order of \<open>getTimeValue\<close> over all
  adjacent pairs, and the records behind the table rows are in descending order over all
  adjacent pairs.
\<close>

theorem sorted_by_instant_when_resolved:
  assumes "\<forall>e\<in>set batch. getTimeValue parse e \<noteq> NaN"
  shows "successively (\<lambda>a b. js_le (getTimeValue parse a) (getTimeValue parse b))
           (seriesEntries parse batch k)
       \<and> successively (\<lambda>a b. js_le (getTimeValue parse b) (getTimeValue parse a))
           (sortedForTable parse batch)"
proof
  have "\<forall>e\<in>set (filter (\<lambda>e. not_null (entry_prop e k))
         (filter (\<lambda>e. not_null (temperature e) \<or> not_null (humidity e)
                       \<or> not_null (pressure e) \<or> not_null (percentage_light_intensity e))
            batch)). getTimeValue parse e \<noteq> NaN"
    using assms by simp
  then show "successively (\<lambda>a b. js_le (getTimeValue parse a) (getTimeValue parse b))
           (seriesEntries parse batch k)"
    unfolding seriesEntries_def
    by (intro successively_if_sorted_wrt ascending_Array_sort)
next
  show "successively (\<lambda>a b. js_le (getTimeValue parse b) (getTimeValue parse a))
           (sortedForTable parse batch)"
    unfolding sortedForTable_def
    by (intro successively_if_sorted_wrt descending_Array_sort assms)
qed

theorem sorted_by_instant_when_resolved_witness:
  "list_all (\<lambda>e. getTimeValue sampleParse e \<noteq> NaN)
     [record_at (Str ''2024-01-01T00:00:00Z'') (Num (Fin 20)),
      record_at (Obj [(''$date'', Str ''2024-01-02T00:00:00Z'')]) (Num (Fin 21)),
      record_at (Num (Fin 3)) (Num (Fin 22))]
   \<and> seriesEntries sampleParse
        [record_at (Str ''2024-01-01T00:00:00Z'') (Num (Fin 20)),
         record_at (Obj [(''$date'', Str ''2024-01-02T00:00:00Z'')]) (Num (Fin 21)),
         record_at (Num (Fin 3)) (Num (Fin 22))] ''temperature''
      = [record_at (Num (Fin 3)) (Num (Fin 22)),
         record_at (Str ''2024-01-01T00:00:00Z'') (Num (Fin 20)),
         record_at (Obj [(''$date'', Str ''2024-01-02T00:00:00Z'')]) (Num (Fin 21))]
   \<and> sortedForTable sampleParse
        [record_at (Str ''2024-01-01T00:00:00Z'') (Num (Fin 20)),
         record_at (Obj [(''$date'', Str ''2024-01-02T00:00:00Z'')]) (Num (Fin 21)),
         record_at (Num (Fin 3)) (Num (Fin 22))]
      = [record_at (Obj [(''$date'', Str ''2024-01-02T00:00:00Z'')]) (Num (Fin 21)),
         record_at (Str ''2024-01-01T00:00:00Z'') (Num (Fin 20)),
         record_at (Num (Fin 3)) (Num (Fin 22))]
   \<and> successively (\<lambda>a b. js_le (getTimeValue sampleParse a) (getTimeValue sampleParse b))
       [record_at (Num (Fin 3)) (Num (Fin 22)),
        record_at (Str ''2024-01-01T00:00:00Z'') (Num (Fin 20)),
        record_at (Obj [(''$date'', Str ''2024-01-02T00:00:00Z'')]) (Num (Fin 21))]
   \<and> successively (\<lambda>a b. js_le (getTimeValue sampleParse b) (getTimeValue sampleParse a))
       [record_at (Obj [(''$date'', Str ''2024-01-02T00:00:00Z'')]) (Num (Fin 21)),
        record_at (Str ''2024-01-01T00:00:00Z'') (Num (Fin 20)),
        record_at (Num (Fin 3)) (Num (Fin 22))]"
  using sorted_by_instant_when_resolved
          [of "[record_at (Str ''2024-01-01T00:00:00Z'') (Num (Fin 20)),
                record_at (Obj [(''$date'', Str ''2024-01-02T00:00:00Z'')]) (Num (Fin 21)),
                record_at (Num (Fin 3)) (Num (Fin 22))]" sampleParse "''temperature''"]
  by (simp add: getTimeValue_def getTime_def record_at_def sampleParse_def seriesEntries_def
        sortedForTable_def sortCompare_def entry_prop_def)

text \<open>
  Claim C2 as stated fails when a timestamp does not parse. In the batch
  \<open>[{timestamp: 3, temperature: 20}, {timestamp: "not a date", temperature: 21},
  {timestamp: 1, temperature: 22}]\<close> the middle record resolves to \<open>NaN\<close>, every
  comparison with it counts as a tie, and both sorts leave the batch as it is: the
  temperature series runs 3, \<open>NaN\<close>, 1, and no adjacent pair of the series or of the table
  involving the \<open>NaN\<close> is in order.
\<close>

theorem sorted_by_instant_counterexample:
  "map (getTimeValue sampleParse)
     (seriesEntries sampleParse
        [record_at (Num (Fin 3)) (Num (Fin 20)),
         record_at (Str ''not a date'') (Num (Fin 21)),
         record_at (Num (Fin 1)) (Num (Fin 22))] ''temperature'')
     = [Fin 3, NaN, Fin 1]
   \<and> \<not> successively (\<lambda>a b. js_le (getTimeValue sampleParse a) (getTimeValue sampleParse b))
       (seriesEntries sampleParse
          [record_at (Num (Fin 3)) (Num (Fin 20)),
           record_at (Str ''not a date'') (Num (Fin 21)),
           record_at (Num (Fin 1)) (Num (Fin 22))] ''temperature'')
   \<and> \<not> successively (\<lambda>a b. js_le (getTimeValue sampleParse b) (getTimeValue sampleParse a))
       (sortedForTable sampleParse
          [record_at (Num (Fin 3)) (Num (Fin 20)),
           record_at (Str ''not a date'') (Num (Fin 21)),
           record_at (Num (Fin 1)) (Num (Fin 22))])"
  by (simp add: getTimeValue_def getTime_def record_at_def sampleParse_def seriesEntries_def
        sortedForTable_def sortCompare_def entry_prop_def)

subsection \<open>Series contents and available metrics\<close>

text \<open>
  Claim C5. For every batch and every key, each record behind a point of the series is a
  record of the batch whose value for the key is neither \<open>null\<close> nor absent and which
  carries at least one of the four metrics; the series is the image of these records, so no
  point has a \<open>null\<close> or absent value; and when no record of the batch has the key, the
  series is the empty list.
\<close>

theorem seriesData_excludes_missing:
  "(\<forall>e\<in>set (seriesEntries parse batch k).
       e \<in> set batch \<and> not_null (entry_prop e k)
     \<and> (not_null (temperature e) \<or> not_null (humidity e) \<or> not_null (pressure e)
          \<or> not_null (percentage_light_intensity e)))
   \<and> seriesData parse fmt batch k
       = map (\<lambda>e. \<lparr>point_time = formatTimestamp parse fmt e, point_value = entry_prop e k\<rparr>)
           (seriesEntries parse batch k)
   \<and> (\<forall>p\<in>set (seriesData parse fmt batch k). not_null (point_value p))
   \<and> ((\<forall>e\<in>set batch. \<not> not_null (entry_prop e k)) \<longrightarrow> seriesData parse fmt batch k = [])"
proof (intro conjI)
  let ?kept = "filter (\<lambda>e. not_null (entry_prop e k))
         (filter (\<lambda>e. not_null (temperature e) \<or> not_null (humidity e)
                       \<or> not_null (pressure e) \<or> not_null (percentage_light_intensity e))
            batch)"
  have s: "set (seriesEntries parse batch k) = set ?kept"
    by (simp add: seriesEntries_def set_Array_sort)
  show a: "\<forall>e\<in>set (seriesEntries parse batch k).
       e \<in> set batch \<and> not_null (entry_prop e k)
     \<and> (not_null (temperature e) \<or> not_null (humidity e) \<or> not_null (pressure e)
          \<or> not_null (percentage_light_intensity e))"
  proof
    fix e assume "e \<in> set (seriesEntries parse batch k)"
    then have "e \<in> set ?kept" using s by blast
    then show "e \<in> set batch \<and> not_null (entry_prop e k)
     \<and> (not_null (temperature e) \<or> not_null (humidity e) \<or> not_null (pressure e)
          \<or> not_null (percentage_light_intensity e))"
      by simp
  qed
  show "seriesData parse fmt batch k
       = map (\<lambda>e. \<lparr>point_time = formatTimestamp parse fmt e, point_value = entry_prop e k\<rparr>)
           (seriesEntries parse batch k)"
    by (simp only: seriesData_def)
  show "\<forall>p\<in>set (seriesData parse fmt batch k). not_null (point_value p)"
  proof
    fix p assume "p \<in> set (seriesData parse fmt batch k)"
    then obtain e where e: "e \<in> set (seriesEntries parse batch k)"
      and p: "p = \<lparr>point_time = formatTimestamp parse fmt e, point_value = entry_prop e k\<rparr>"
      unfolding seriesData_def by auto
    show "not_null (point_value p)" using a e p by simp
  qed
  show "(\<forall>e\<in>set batch. \<not> not_null (entry_prop e k)) \<longrightarrow> seriesData parse fmt batch k = []"
  proof
    assume none: "\<forall>e\<in>set batch. \<not> not_null (entry_prop e k)"
    have "?kept = []"
      using none by (simp add: filter_empty_conv)
    then have "seriesEntries parse batch k = []"
      by (simp add: seriesEntries_def)
    then show "seriesData parse fmt batch k = []" by (simp add: seriesData_def)
  qed
qed

theorem seriesData_excludes_missing_witness:
  "seriesData sampleParse sampleFormat sampleBatch ''temperature''
     = [\<lparr>point_time = ''1/1/2024, 12:00:00 AM'', point_value = Num (Fin 20)\<rparr>]
   \<and> list_all (\<lambda>p. not_null (point_value p))
         (seriesData sampleParse sampleFormat sampleBatch ''temperature'')
   \<and> list_all (\<lambda>e. \<not> not_null (entry_prop e ''pressure'')) sampleBatch
   \<and> seriesData sampleParse sampleFormat sampleBatch ''pressure'' = []"
proof -
  have temp: "seriesData sampleParse sampleFormat sampleBatch ''temperature''
     = [\<lparr>point_time = ''1/1/2024, 12:00:00 AM'', point_value = Num (Fin 20)\<rparr>]"
    by (simp add: seriesData_def seriesEntries_def entry_prop_def sampleBatch_def
          formatTimestamp_def toLocaleString_def sampleParse_def sampleFormat_def)
  have none: "\<forall>e\<in>set sampleBatch. \<not> not_null (entry_prop e ''pressure'')"
    by (simp add: entry_prop_def sampleBatch_def)
  have nonnull: "\<forall>p\<in>set (seriesData sampleParse sampleFormat sampleBatch ''temperature'').
         not_null (point_value p)"
    using seriesData_excludes_missing [of sampleParse sampleBatch "''temperature''" sampleFormat]
    by blast
  have empty: "seriesData sampleParse sampleFormat sampleBatch ''pressure'' = []"
    using seriesData_excludes_missing [of sampleParse sampleBatch "''pressure''" sampleFormat] none
    by blast
  show ?thesis using temp nonnull none empty by (simp only: list_all_iff simp_thms)
qed

text \<open>
  Claim C6. For every batch the list of chart metrics contains temperature, humidity and
  pressure, and contains \<open>percentage_light_intensity\<close> if and only if some record of the
  batch has a light intensity that is neither \<open>null\<close> nor absent. For a batch that is not
  empty these are the keys of the charts rendered.
\<close>

theorem chartMetrics_available:
  "{''temperature'', ''humidity'', ''pressure''}
     \<subseteq> set (map key (chartMetrics (hasLightIntensity (Some batch))))
   \<and> (''percentage_light_intensity'' \<in> set (map key (chartMetrics (hasLightIntensity (Some batch))))
        \<longleftrightarrow> (\<exists>e\<in>set batch. not_null (percentage_light_intensity e)))
   \<and> (batch \<noteq> [] \<longrightarrow>
        (\<exists>cs. chartsPanel parse fmt (Some batch) = Some cs
            \<and> map (\<lambda>c. key (fst c)) cs = map key (chartMetrics (hasLightIntensity (Some batch)))))"
proof (intro conjI)
  show "{''temperature'', ''humidity'', ''pressure''}
     \<subseteq> set (map key (chartMetrics (hasLightIntensity (Some batch))))"
    by (simp add: chartMetrics_def)
  have light: "hasLightIntensity (Some batch)
                 \<longleftrightarrow> (\<exists>e\<in>set batch. not_null (percentage_light_intensity e))"
    by (cases batch) (auto simp: hasLightIntensity_def hasData_def list_ex_iff)
  show "''percentage_light_intensity'' \<in> set (map key (chartMetrics (hasLightIntensity (Some batch))))
        \<longleftrightarrow> (\<exists>e\<in>set batch. not_null (percentage_light_intensity e))"
    unfolding light [symmetric]
    by (cases "hasLightIntensity (Some batch)") (simp_all add: chartMetrics_def)
  show "batch \<noteq> [] \<longrightarrow>
        (\<exists>cs. chartsPanel parse fmt (Some batch) = Some cs
            \<and> map (\<lambda>c. key (fst c)) cs = map key (chartMetrics (hasLightIntensity (Some batch))))"
    by (simp add: chartsPanel_def hasData_def comp_def)
qed

theorem chartMetrics_available_witness:
  "map key (chartMetrics (hasLightIntensity (Some sampleBatch)))
     = [''temperature'', ''humidity'', ''pressure'']
   \<and> \<not> (\<exists>e\<in>set sampleBatch. not_null (percentage_light_intensity e))
   \<and> map key (chartMetrics (hasLightIntensity
        (Some [(record_at (Num (Fin 3)) Null)\<lparr>percentage_light_intensity := Num (Fin 80)\<rparr>])))
     = [''temperature'', ''humidity'', ''pressure'', ''percentage_light_intensity'']"
  using chartMetrics_available [of sampleBatch sampleParse sampleFormat]
        chartMetrics_available
          [of "[(record_at (Num (Fin 3)) Null)\<lparr>percentage_light_intensity := Num (Fin 80)\<rparr>]"
              sampleParse sampleFormat]
  by (simp add: chartMetrics_def hasLightIntensity_def hasData_def sampleBatch_def record_at_def)

subsection \<open>The table\<close>

text \<open>
  Claim C7. For every batch, the empty one included, the table shows as many rows as the
  batch has records. The rows are the image of the sorted batch, which holds exactly the
  records of the batch, none dropped or added; and every row has the light-intensity cell
  when \<open>hasLightIntensity\<close> holds for the batch, and no row has it otherwise.
\<close>

theorem table_rows_cover_batch:
  assumes "selectedData s = Some batch"
  shows "length (panelRows (fst (tablePanel parse fmt s))) = length batch
       \<and> (\<forall>r\<in>set (panelRows (fst (tablePanel parse fmt s))).
            (cell_light r \<noteq> None) = hasLightIntensity (Some batch))
       \<and> (batch \<noteq> [] \<longrightarrow>
            panelRows (fst (tablePanel parse fmt s))
              = map (tableRow parse fmt (hasLightIntensity (Some batch)))
                  (enumerate 0 (sortedForTable parse batch))
          \<and> mset (sortedForTable parse batch) = mset batch)"
proof (cases "batch = []")
  case True
  then show ?thesis using assms by (simp add: tablePanel_def hasData_def panelRows_def)
next
  case False
  then have r: "panelRows (fst (tablePanel parse fmt s))
      = map (tableRow parse fmt (hasLightIntensity (Some batch)))
          (enumerate 0 (sortedForTable parse batch))"
    using assms by (simp add: tablePanel_def hasData_def panelRows_def tableRows_def)
  have len: "length (panelRows (fst (tablePanel parse fmt s))) = length batch"
    unfolding r by (simp add: sortedForTable_def length_Array_sort)
  have col: "\<forall>r\<in>set (panelRows (fst (tablePanel parse fmt s))).
            (cell_light r \<noteq> None) = hasLightIntensity (Some batch)"
    unfolding r by (simp add: cell_light_tableRow del: not_None_eq)
  have ms: "mset (sortedForTable parse batch) = mset batch"
    by (simp add: sortedForTable_def mset_Array_sort)
  show ?thesis by (intro conjI impI len col r ms)
qed

theorem table_rows_cover_batch_witness:
  "selectedData (initialState\<lparr>selectedData := Some sampleBatch\<rparr>) = Some sampleBatch
   \<and> length (panelRows (fst (tablePanel sampleParse sampleFormat
        (initialState\<lparr>selectedData := Some sampleBatch\<rparr>)))) = 2
   \<and> list_all (\<lambda>r. cell_light r = None)
        (panelRows (fst (tablePanel sampleParse sampleFormat
           (initialState\<lparr>selectedData := Some sampleBatch\<rparr>))))
   \<and> sampleBatch \<noteq> []
   \<and> length (panelRows (fst (tablePanel sampleParse sampleFormat
        (initialState\<lparr>selectedData := Some []\<rparr>)))) = 0"
proof -
  have sel: "selectedData (initialState\<lparr>selectedData := Some sampleBatch\<rparr>) = Some sampleBatch"
    by simp
  have sel0: "selectedData (initialState\<lparr>selectedData := Some []\<rparr>) = Some []"
    by simp
  have nolight: "\<not> hasLightIntensity (Some sampleBatch)"
    by (simp add: hasLightIntensity_def hasData_def sampleBatch_def)
  have two: "length sampleBatch = 2" and ne: "sampleBatch \<noteq> []"
    by (simp_all add: sampleBatch_def)
  note full = table_rows_cover_batch [OF sel, of sampleParse sampleFormat]
  note none = table_rows_cover_batch [OF sel0, of sampleParse sampleFormat]
  have a: "length (panelRows (fst (tablePanel sampleParse sampleFormat
        (initialState\<lparr>selectedData := Some sampleBatch\<rparr>)))) = 2"
    using full two by simp
  have b: "list_all (\<lambda>r. cell_light r = None)
        (panelRows (fst (tablePanel sampleParse sampleFormat
           (initialState\<lparr>selectedData := Some sampleBatch\<rparr>))))"
    unfolding list_all_iff using full nolight by blast
  have c: "length (panelRows (fst (tablePanel sampleParse sampleFormat
        (initialState\<lparr>selectedData := Some []\<rparr>)))) = 0"
    using none by simp
  show ?thesis by (intro conjI sel a b ne c)
qed

text \<open>
  Claim C8. In every table row each metric cell is the string \<open>N/A\<close> when the raw value
  is falsy (\<open>null\<close>, absent, \<open>false\<close>, 0, \<open>NaN\<close> or the empty string) and is the raw
  value otherwise; so a cell reads \<open>N/A\<close> exactly when the raw value is falsy or is
  itself the string \<open>N/A\<close>. In particular a temperature of 0 is shown as \<open>N/A\<close>.
\<close>

theorem table_cell_falsy_sentinel:
  "cell_temperature (tableRow parse fmt light (i, e))
     = (if truthy (temperature e) then temperature e else Str ''N/A'')
   \<and> cell_humidity (tableRow parse fmt light (i, e))
     = (if truthy (humidity e) then humidity e else Str ''N/A'')
   \<and> cell_pressure (tableRow parse fmt light (i, e))
     = (if truthy (pressure e) then pressure e else Str ''N/A'')
   \<and> cell_light (tableRow parse fmt light (i, e))
     = (if light
        then Some (if truthy (percentage_light_intensity e) then percentage_light_intensity e
                   else Str ''N/A'')
        else None)
   \<and> (cell_temperature (tableRow parse fmt light (i, e)) = Str ''N/A''
        \<longleftrightarrow> \<not> truthy (temperature e) \<or> temperature e = Str ''N/A'')
   \<and> (cell_humidity (tableRow parse fmt light (i, e)) = Str ''N/A''
        \<longleftrightarrow> \<not> truthy (humidity e) \<or> humidity e = Str ''N/A'')
   \<and> (cell_pressure (tableRow parse fmt light (i, e)) = Str ''N/A''
        \<longleftrightarrow> \<not> truthy (pressure e) \<or> pressure e = Str ''N/A'')
   \<and> (temperature e = Num (Fin 0) \<longrightarrow>
        cell_temperature (tableRow parse fmt light (i, e)) = Str ''N/A'')"
  by (simp add: tableRow_def js_or_def)

theorem table_cell_falsy_sentinel_witness:
  "temperature (record_at (Num (Fin 3)) (Num (Fin 0))) = Num (Fin 0)
   \<and> cell_temperature (tableRow sampleParse sampleFormat True
        (0, record_at (Num (Fin 3)) (Num (Fin 0)))) = Str ''N/A''
   \<and> cell_temperature (tableRow sampleParse sampleFormat True
        (0, record_at (Num (Fin 3)) (Num (Fin 20)))) = Num (Fin 20)
   \<and> cell_light (tableRow sampleParse sampleFormat True
        (0, record_at (Num (Fin 3)) (Num (Fin 20)))) = Some (Str ''N/A'')"
  using table_cell_falsy_sentinel
          [of sampleParse sampleFormat True 0 "record_at (Num (Fin 3)) (Num (Fin 0))"]
        table_cell_falsy_sentinel
          [of sampleParse sampleFormat True 0 "record_at (Num (Fin 3)) (Num (Fin 20))"]
  by (simp add: record_at_def)

subsection \<open>State\<close>

text \<open>
  Claim C9 says that no derivation changes the batch. The chart series are built from a copy
  (\<open>[...selectedData]\<close>), but the table calls \<open>sort\<close> on \<open>selectedData\<close> itself. After
  the batch \<open>[{timestamp: "2024-01-01T00:00:00Z", temperature: 20},
  {timestamp: {$date: "2024-01-02T00:00:00Z"}, humidity: 50}]\<close> has been fetched, one
  render leaves the stored batch in the reverse order.
\<close>

theorem table_render_reorders_batch:
  "selectedData (handleClick (Num (Fin 7)) ''Kandy'' (Resolved sampleBatch) initialState)
     = Some sampleBatch
   \<and> selectedData (snd (tablePanel sampleParse sampleFormat
        (handleClick (Num (Fin 7)) ''Kandy'' (Resolved sampleBatch) initialState)))
     = Some (rev sampleBatch)
   \<and> selectedData (snd (App sampleParse sampleFormat
        (handleClick (Num (Fin 7)) ''Kandy'' (Resolved sampleBatch) initialState)))
     = Some (rev sampleBatch)
   \<and> rev sampleBatch \<noteq> sampleBatch"
proof -
  have fetched: "selectedData (handleClick (Num (Fin 7)) ''Kandy'' (Resolved sampleBatch) initialState)
     = Some sampleBatch"
    by (simp add: handleClick_def)
  have sorted: "sortedForTable sampleParse sampleBatch = rev sampleBatch"
    by (simp add: sortedForTable_def sortCompare_def getTimeValue_def getTime_def
          sampleParse_def sampleBatch_def)
  have nonempty: "hasData (Some sampleBatch)"
    by (simp add: hasData_def sampleBatch_def)
  have tbl: "selectedData (snd (tablePanel sampleParse sampleFormat
        (handleClick (Num (Fin 7)) ''Kandy'' (Resolved sampleBatch) initialState)))
     = Some (rev sampleBatch)"
    using fetched nonempty sorted by (simp add: tablePanel_def)
  have app: "selectedData (snd (App sampleParse sampleFormat
        (handleClick (Num (Fin 7)) ''Kandy'' (Resolved sampleBatch) initialState)))
     = Some (rev sampleBatch)"
    using fetched sorted by (simp add: render_sorts_selectedData)
  have differ: "rev sampleBatch \<noteq> sampleBatch"
    by (simp add: sampleBatch_def)
  show ?thesis by (intro conjI fetched tbl app differ)
qed

text \<open>
  Claim C10. When the request of \<open>handleClick\<close> fails, the state is the state before
  with one line more on the console, the error report: the batch, the selected name and
  the profiles keep their values.
\<close>

theorem handleClick_failure_keeps_state:
  "handleClick ident name (Rejected err) s
     = s\<lparr>console := console s @ [ConsoleError ''Error loading data:'' err]\<rparr>
   \<and> selectedData (handleClick ident name (Rejected err) s) = selectedData s
   \<and> selectedProfile (handleClick ident name (Rejected err) s) = selectedProfile s
   \<and> profiles (handleClick ident name (Rejected err) s) = profiles s"
  by (simp add: handleClick_def)

theorem handleClick_failure_keeps_state_witness:
  "selectedData (handleClick (Num (Fin 8)) ''Galle'' (Rejected ''Network Error'')
      (handleClick (Num (Fin 7)) ''Kandy'' (Resolved sampleBatch) initialState))
     = Some sampleBatch
   \<and> selectedProfile (handleClick (Num (Fin 8)) ''Galle'' (Rejected ''Network Error'')
      (handleClick (Num (Fin 7)) ''Kandy'' (Resolved sampleBatch) initialState))
     = Some ''Kandy''
   \<and> console (handleClick (Num (Fin 8)) ''Galle'' (Rejected ''Network Error'')
      (handleClick (Num (Fin 7)) ''Kandy'' (Resolved sampleBatch) initialState))
     = [ConsoleLog ''Data loaded for ID'' (Num (Fin 7)) sampleBatch,
        ConsoleError ''Error loading data:'' ''Network Error'']"
proof -
  have before: "handleClick (Num (Fin 7)) ''Kandy'' (Resolved sampleBatch) initialState
     = \<lparr>profiles = [], selectedData = Some sampleBatch, selectedProfile = Some ''Kandy'',
        console = [ConsoleLog ''Data loaded for ID'' (Num (Fin 7)) sampleBatch]\<rparr>"
    by (simp add: handleClick_def initialState_def)
  show ?thesis
    using handleClick_failure_keeps_state
            [of "Num (Fin 8)" "''Galle''" "''Network Error''"
                "handleClick (Num (Fin 7)) ''Kandy'' (Resolved sampleBatch) initialState"]
    by (simp add: before)
qed

end
